theory Spec2Isabelle
  imports Complex_Main
begin

section \<open>Python values and exceptions\<close>

text \<open>
  The exception classes the code distinguishes. The \<open>requests\<close> hierarchy matters for the
  order of the \<open>except\<close> clauses: \<open>ConnectTimeout\<close> is both a \<open>Timeout\<close> and a
  \<open>ConnectionError\<close>, \<open>ReadTimeout\<close> is a \<open>Timeout\<close> only, and all of them are
  \<open>RequestException\<close>s. \<open>OSError\<close>, \<open>ValueError\<close>, \<open>IndexError\<close>, \<open>KeyError\<close> and
  \<open>OtherException\<close> are subclasses of \<open>Exception\<close> outside that hierarchy.
\<close>

datatype exn =
    ReadTimeout
  | ConnectTimeout
  | ConnectionError
  | OtherRequestException
  | OSError
  | ValueError
  | IndexError
  | KeyError
  | OtherException

fun is_Timeout :: "exn \<Rightarrow> bool" where
  "is_Timeout ReadTimeout = True"
| "is_Timeout ConnectTimeout = True"
| "is_Timeout _ = False"

fun is_ConnectionError :: "exn \<Rightarrow> bool" where
  "is_ConnectionError ConnectionError = True"
| "is_ConnectionError ConnectTimeout = True"
| "is_ConnectionError _ = False"

fun is_RequestException :: "exn \<Rightarrow> bool" where
  "is_RequestException ReadTimeout = True"
| "is_RequestException ConnectTimeout = True"
| "is_RequestException ConnectionError = True"
| "is_RequestException OtherRequestException = True"
| "is_RequestException _ = False"

text \<open>A decoded JSON body, which is also the Python value the client passes around
  (\<open>JNull\<close> is \<open>None\<close>).\<close>

datatype json =
    JNull
  | JBool bool
  | JNum real
  | JStr string
  | JList "json list"
  | JDict "(string \<times> json) list"

text \<open>Python truthiness, as used by \<open>if not data\<close>.\<close>

fun truthy :: "json \<Rightarrow> bool" where
  "truthy JNull = False"
| "truthy (JBool b) = b"
| "truthy (JNum x) = (x \<noteq> 0)"
| "truthy (JStr s) = (s \<noteq> [])"
| "truthy (JList xs) = (xs \<noteq> [])"
| "truthy (JDict kvs) = (kvs \<noteq> [])"

section \<open>fmpMarketData.py: the rate limiter\<close>

text \<open>The fields of an \<open>FMPMarketData\<close> instance that the request layer reads and writes.
  Time is \<open>time.time()\<close>, in seconds.\<close>

record FMPMarketData =
  request_timestamps :: "real list"
  MAX_REQUESTS_PER_MIN :: nat
  LOCK_WINDOW_SECONDS :: real
  MAX_RETRIES :: nat
  TIMEOUT_SECONDS :: real
  INTERNET_RETRY_INTERVAL_SECONDS :: real
  INTERNET_MAX_WAIT_SECONDS :: real

text \<open>\<open>__init__\<close>: the API key must be a non-empty string (\<open>None\<close> stands for any other
  value); the limiter starts with no timestamps.\<close>

definition FMPMarketData_init :: "string option \<Rightarrow> exn + FMPMarketData" where
  "FMPMarketData_init fmp_api_key =
     (case fmp_api_key of
        None \<Rightarrow> Inl ValueError
      | Some k \<Rightarrow>
          if k = [] then Inl ValueError
          else Inr \<lparr> request_timestamps = [],
                     MAX_REQUESTS_PER_MIN = 3000,
                     LOCK_WINDOW_SECONDS = 60,
                     MAX_RETRIES = 6,
                     TIMEOUT_SECONDS = 10,
                     INTERNET_RETRY_INTERVAL_SECONDS = 10,
                     INTERNET_MAX_WAIT_SECONDS = 120 \<rparr>)"

text \<open>Clock readings are Python floats. A float is a real number, and \<open>a - b\<close> on floats is
  the exact difference rounded; the rounded subtraction is the parameter \<open>sub\<close> of the
  definitions below. Comparisons of floats, and of a float with the integer
  \<open>LOCK_WINDOW_SECONDS\<close>, are exact.

  One pass through the body of \<open>with self._lock\<close> in \<open>_check_rate_limit\<close>, at the clock
  reading \<open>current_time\<close>. The mutex makes the pass atomic, so an interleaving of callers is
  a sequence of such passes. \<open>Reserved\<close> is the \<open>return\<close>; \<open>Wait w\<close> leaves the lock with
  \<open>wait_time = w\<close>; indexing an empty list raises.\<close>

datatype rate_check = Reserved | Wait real | Raised exn

definition rate_limit_locked ::
  "(real \<Rightarrow> real \<Rightarrow> real) \<Rightarrow> real \<Rightarrow> FMPMarketData \<Rightarrow> rate_check \<times> FMPMarketData" where
  "rate_limit_locked sub current_time self =
     (let ts = filter (\<lambda>t. sub current_time t < LOCK_WINDOW_SECONDS self) (request_timestamps self);
          self1 = self\<lparr>request_timestamps := ts\<rparr>
      in if length ts < MAX_REQUESTS_PER_MIN self
         then (Reserved, self1\<lparr>request_timestamps := ts @ [current_time]\<rparr>)
         else (case ts of
                 [] \<Rightarrow> (Raised IndexError, self1)
               | t0 # _ \<Rightarrow>
                   (Wait (sub (LOCK_WINDOW_SECONDS self) (sub current_time t0)), self1)))"

text \<open>An interleaving of callers is a schedule: the threads in the order in which they
  hold the lock, each with the reading of \<open>time.time()\<close> it makes there. The run of a schedule
  records every pass: who made it, its clock reading, its outcome and the instance it
  leaves.\<close>

record pass =
  thread :: nat
  reading :: real
  outcome :: rate_check
  after :: FMPMarketData

fun run_passes ::
  "(real \<Rightarrow> real \<Rightarrow> real) \<Rightarrow> (nat \<times> real) list \<Rightarrow> FMPMarketData \<Rightarrow> pass list" where
  "run_passes sub [] self = []"
| "run_passes sub ((th, now) # rest) self =
     (case rate_limit_locked sub now self of
        (out, self') \<Rightarrow>
          \<lparr> thread = th, reading = now, outcome = out, after = self' \<rparr> # run_passes sub rest self')"

text \<open>One call of \<open>_check_rate_limit\<close> by the thread \<open>me\<close>, inside a schedule. The passes of
  the other threads go through the same locked section, whatever those threads do with the
  outcome. A pass of \<open>me\<close> is one iteration of \<open>while True\<close>: it returns, or raises, or
  leaves the lock and calls \<open>time.sleep(wait_time)\<close> when \<open>wait_time > 0\<close> and
  \<open>time.sleep(0)\<close> otherwise, after which the next pass of \<open>me\<close> in the schedule is the next
  iteration. The result is the returned unit or the exception, the arguments of the
  successive \<open>time.sleep\<close> calls, and the instance when the call ends; \<open>None\<close> is a call
  still blocked when the schedule ends.\<close>

fun check_rate_limit ::
  "(real \<Rightarrow> real \<Rightarrow> real) \<Rightarrow> nat \<Rightarrow> (nat \<times> real) list \<Rightarrow> FMPMarketData
     \<Rightarrow> ((exn + unit) \<times> real list \<times> FMPMarketData) option" where
  "check_rate_limit sub me [] self = None"
| "check_rate_limit sub me ((th, current_time) # rest) self =
     (case rate_limit_locked sub current_time self of
        (out, self') \<Rightarrow>
          if th \<noteq> me then check_rate_limit sub me rest self'
          else (case out of
                  Reserved \<Rightarrow> Some (Inr (), [], self')
                | Raised e \<Rightarrow> Some (Inl e, [], self')
                | Wait wait_time \<Rightarrow>
                    (case check_rate_limit sub me rest self' of
                       None \<Rightarrow> None
                     | Some (r, sleeps, self'') \<Rightarrow>
                         Some (r, (if wait_time > 0 then wait_time else 0) # sleeps, self''))))"








section \<open>backfill.py: dates and batches\<close>

text \<open>A \<open>datetime.date\<close> is its proleptic Gregorian ordinal (\<open>date.toordinal()\<close>: day 1 is
  0001-01-01). \<open>date_ordinal\<close> is the standard library's \<open>_ymd2ord\<close>, and \<open>weekday\<close> its
  \<open>date.weekday()\<close> (Monday is 0).\<close>

definition is_leap :: "int \<Rightarrow> bool" where
  "is_leap y = (y mod 4 = 0 \<and> (y mod 100 \<noteq> 0 \<or> y mod 400 = 0))"

definition days_before_year :: "int \<Rightarrow> int" where
  "days_before_year year =
     (let y = year - 1 in y * 365 + y div 4 - y div 100 + y div 400)"

definition days_before_month :: "int \<Rightarrow> nat \<Rightarrow> int" where
  "days_before_month year month =
     ([0, 0, 31, 59, 90, 120, 151, 181, 212, 243, 273, 304, 334] ! month)
       + (if month > 2 \<and> is_leap year then 1 else 0)"

definition date_ordinal :: "int \<Rightarrow> nat \<Rightarrow> int \<Rightarrow> int" where
  "date_ordinal year month day = days_before_year year + days_before_month year month + day"

definition weekday :: "int \<Rightarrow> int" where
  "weekday d = (d + 6) mod 7"

text \<open>\<open>pd.bdate_range(start=start_date, end=end_date).date\<close> with the default frequency:
  the days from Monday to Friday in the closed range, ascending; no holiday calendar.\<close>

definition bdate_range :: "int \<Rightarrow> int \<Rightarrow> int list" where
  "bdate_range start_date end_date = filter (\<lambda>d. weekday d < 5) [start_date..end_date]"

definition BATCH_DAYS :: nat where
  "BATCH_DAYS = 3"

text \<open>\<open>range(0, stop, step)\<close> for a positive step, and step 4 of \<open>backfill_data\<close>:
  \<open>[all_dates[i : i + BATCH_DAYS] for i in range(0, len(all_dates), BATCH_DAYS)]\<close>.\<close>

definition range_step :: "nat \<Rightarrow> nat \<Rightarrow> nat list" where
  "range_step stop step = map (\<lambda>k. k * step) [0..<(stop + step - 1) div step]"

definition group_dates :: "'a list \<Rightarrow> 'a list list" where
  "group_dates all_dates =
     map (\<lambda>i. take BATCH_DAYS (drop i all_dates)) (range_step (length all_dates) BATCH_DAYS)"

text \<open>The batch planner of \<open>backfill_data\<close> (steps 3 and 4): \<open>None\<close> is the early return
  taken when the range holds no business day.\<close>

definition plan_batches :: "int \<Rightarrow> int \<Rightarrow> int list list option" where
  "plan_batches start_date end_date =
     (let all_dates = bdate_range start_date end_date
      in if length all_dates = 0 then None else Some (group_dates all_dates))"

text \<open>The chunks the planner hands to the fetch loop: none on the early return.\<close>

definition planned_chunks :: "int \<Rightarrow> int \<Rightarrow> int list list" where
  "planned_chunks start_date end_date =
     (case plan_batches start_date end_date of None \<Rightarrow> [] | Some gs \<Rightarrow> gs)"

section \<open>backfill.py: frames, the CSV sink and the fetch loop\<close>

text \<open>The libraries the module calls are parameters. \<open>strftime\<close>, \<open>str\<close>, \<open>str.lower\<close> and
  \<open>os.path.join\<close> are functions, \<open>TEMP_DIR\<close> is the module constant. A pandas frame is a
  value of a type \<open>'df\<close> of which nothing is assumed, and each pandas operation the module
  performs is a function on it that gives the resulting frame or the exception pandas
  raises:
  \<^item> \<open>DataFrame data\<close> is \<open>pd.DataFrame(data)\<close> and \<open>empty_frame\<close> is \<open>pd.DataFrame()\<close>;
  \<^item> \<open>df_empty df\<close> is \<open>df.empty\<close> and \<open>has_column df c\<close> is \<open>c in df.columns\<close>;
  \<^item> \<open>rename_column df a b\<close> is \<open>df.rename(columns={a: b}, inplace=True)\<close>;
  \<^item> \<open>to_datetime_column df c\<close> is \<open>df[c] = pd.to_datetime(df[c])\<close>;
  \<^item> \<open>set_column df c v\<close> is \<open>df[c] = v\<close> for a string \<open>v\<close>;
  \<^item> \<open>date_of_datetime df\<close> is \<open>df["date"] = df["datetime"].dt.date\<close>;
  \<^item> \<open>select_columns df cs\<close> is \<open>df[cs]\<close>;
  \<^item> \<open>to_csv_text df header\<close> is the text \<open>df.to_csv(index=False, header=header)\<close> produces;
  \<^item> \<open>pd_concat dfs\<close> is \<open>pd.concat(dfs, ignore_index=True)\<close>.\<close>

record 'df lib =
  strftime_iso :: "int \<Rightarrow> string"
  strftime_compact :: "int \<Rightarrow> string"
  str_of_int :: "int \<Rightarrow> string"
  lower :: "string \<Rightarrow> string"
  path_join :: "string \<Rightarrow> string \<Rightarrow> string"
  TEMP_DIR :: string
  DataFrame :: "json list \<Rightarrow> exn + 'df"
  empty_frame :: 'df
  df_empty :: "'df \<Rightarrow> bool"
  has_column :: "'df \<Rightarrow> string \<Rightarrow> bool"
  rename_column :: "'df \<Rightarrow> string \<Rightarrow> string \<Rightarrow> exn + 'df"
  to_datetime_column :: "'df \<Rightarrow> string \<Rightarrow> exn + 'df"
  set_column :: "'df \<Rightarrow> string \<Rightarrow> string \<Rightarrow> exn + 'df"
  date_of_datetime :: "'df \<Rightarrow> exn + 'df"
  select_columns :: "'df \<Rightarrow> string list \<Rightarrow> exn + 'df"
  to_csv_text :: "'df \<Rightarrow> bool \<Rightarrow> string"
  pd_concat :: "'df list \<Rightarrow> exn + 'df"


definition column_order :: "string list" where
  "column_order = [''ticker'', ''date'', ''datetime'', ''open'', ''high'', ''low'', ''close'', ''volume'']"

text \<open>\<open>prepare_data\<close>, statement by statement; the first exception ends it.\<close>

definition prepare_data :: "'df lib \<Rightarrow> 'df \<Rightarrow> string \<Rightarrow> exn + 'df" where
  "prepare_data L df_chunk ticker =
     (case (if has_column L df_chunk ''date''
            then (case rename_column L df_chunk ''date'' ''datetime'' of
                    Inl ex \<Rightarrow> Inl ex
                  | Inr df1 \<Rightarrow> to_datetime_column L df1 ''datetime'')
            else Inr df_chunk) of
        Inl ex \<Rightarrow> Inl ex
      | Inr df2 \<Rightarrow>
          (case set_column L df2 ''ticker'' ticker of
             Inl ex \<Rightarrow> Inl ex
           | Inr df3 \<Rightarrow>
               (case date_of_datetime L df3 of
                  Inl ex \<Rightarrow> Inl ex
                | Inr df4 \<Rightarrow> select_columns L df4 column_order)))"

text \<open>The events a run leaves, in order: the lines it logs, the calls of \<open>time.sleep\<close> with
  their argument, and \<open>Try n\<close> when the \<open>try\<close> block is entered with \<open>attempt = n\<close>.\<close>

datatype event =
    Processing string
  | Fetching string string string
  | Try nat
  | LogError nat exn
  | Sleep nat
  | NoDataWarning
  | NoTradingDays

text \<open>The state of a run: the files of the file system with their text, the list \<open>all_dfs\<close>,
  the events so far, and the number of tries made so far in the run.\<close>

record 'df bf_state =
  files :: "string \<rightharpoonup> string"
  all_dfs :: "'df list"
  trace :: "event list"
  tries :: nat

text \<open>\<open>df_chunk.to_csv(output_path, mode="a", index=False, header=(not
  os.path.exists(output_path)))\<close>: the text is appended to the file, which is created when it
  does not exist. \<open>stop\<close> is \<open>None\<close> for a call that completes, and \<open>Some n\<close> for a call that
  raises after \<open>n\<close> characters have reached the file.\<close>

definition to_csv :: "'df lib \<Rightarrow> string \<Rightarrow> 'df \<Rightarrow> nat option \<Rightarrow> 'df bf_state \<Rightarrow> 'df bf_state" where
  "to_csv L output_path df_chunk stop st =
     (let content = to_csv_text L df_chunk (files st output_path = None);
          written = (case stop of None \<Rightarrow> content | Some n \<Rightarrow> take n content);
          old = (case files st output_path of None \<Rightarrow> [] | Some s \<Rightarrow> s)
      in st\<lparr>files := (files st)(output_path \<mapsto> old @ written)\<rparr>)"

text \<open>What the outside world does on one try: the value \<open>fmp.get_intraday_data\<close> returns or
  the exception it raises, the same for \<open>fmp.get_historical_data\<close> should it be called, and
  whether \<open>to_csv\<close> raises, should it be called: \<open>Some (ex, None)\<close> when it raises \<open>ex\<close> before
  the file is opened, \<open>Some (ex, Some n)\<close> when it raises after writing \<open>n\<close> characters. The
  tries of a run are numbered in order, and the world answers by that number.\<close>

record try_env =
  intraday :: "exn + json"
  historical :: "exn + json"
  csv_error :: "(exn \<times> nat option) option"

record bf_env =
  api_key :: "string option"
  remove_raises :: bool
  on_try :: "nat \<Rightarrow> try_env"

text \<open>The body of the \<open>try\<close> (lines 178 to 212), in three parts. The fetch (lines 178 to
  189): the intraday data, or the historical data when the intraday fetch returned \<open>None\<close>.\<close>

definition fetch_chunk :: "try_env \<Rightarrow> exn + json" where
  "fetch_chunk w =
     (case intraday w of
        Inl ex \<Rightarrow> Inl ex
      | Inr data_chunk \<Rightarrow> if data_chunk = JNull then historical w else Inr data_chunk)"

text \<open>\<open>if output_path: df_chunk.to_csv(\<dots>)\<close> (lines 200 to 206): the exception raised, if
  any, and the state.\<close>

definition write_chunk ::
  "'df lib \<Rightarrow> try_env \<Rightarrow> string option \<Rightarrow> 'df \<Rightarrow> 'df bf_state \<Rightarrow> exn option \<times> 'df bf_state" where
  "write_chunk L w output_path df_chunk st =
     (case output_path of
        None \<Rightarrow> (None, st)
      | Some p \<Rightarrow>
          if p = [] then (None, st)
          else (case csv_error w of
                  None \<Rightarrow> (None, to_csv L p df_chunk None st)
                | Some (ex, None) \<Rightarrow> (Some ex, st)
                | Some (ex, Some n) \<Rightarrow> (Some ex, to_csv L p df_chunk (Some n) st)))"

text \<open>\<open>if data_chunk and isinstance(data_chunk, list): \<dots>\<close> (lines 192 to 211): build the
  frame, prepare it, keep it in \<open>all_dfs\<close>, write it.\<close>

definition store_chunk ::
  "'df lib \<Rightarrow> try_env \<Rightarrow> string \<Rightarrow> string option \<Rightarrow> json \<Rightarrow> 'df bf_state
     \<Rightarrow> exn option \<times> 'df bf_state" where
  "store_chunk L w ticker output_path data_chunk st =
     (case data_chunk of
        JList xs \<Rightarrow>
          if xs = [] then (None, st)
          else
            (case DataFrame L xs of
               Inl ex \<Rightarrow> (Some ex, st)
             | Inr df_chunk \<Rightarrow>
                 if df_empty L df_chunk
                 then (None, st\<lparr>trace := trace st @ [NoDataWarning]\<rparr>)
                 else
                   (case prepare_data L df_chunk ticker of
                      Inl ex \<Rightarrow> (Some ex, st)
                    | Inr df \<Rightarrow> write_chunk L w output_path df (st\<lparr>all_dfs := all_dfs st @ [df]\<rparr>)))
      | _ \<Rightarrow> (None, st))"

text \<open>The whole body, entered with \<open>attempt\<close>: \<open>None\<close> when it reaches \<open>success = True\<close>, the
  exception otherwise.\<close>

definition try_body ::
  "'df lib \<Rightarrow> bf_env \<Rightarrow> string \<Rightarrow> string option \<Rightarrow> nat \<Rightarrow> 'df bf_state
     \<Rightarrow> exn option \<times> 'df bf_state" where
  "try_body L env ticker output_path attempt st =
     (let w = on_try env (tries st);
          st0 = st\<lparr>tries := tries st + 1, trace := trace st @ [Try attempt]\<rparr>
      in case fetch_chunk w of
           Inl ex \<Rightarrow> (Some ex, st0)
         | Inr data_chunk \<Rightarrow> store_chunk L w ticker output_path data_chunk st0)"

text \<open>\<open>while attempt < 2 and not success\<close>, with the \<open>except Exception\<close> handler: log the
  error, \<open>time.sleep(1)\<close>.\<close>

function attempt_loop ::
  "'df lib \<Rightarrow> bf_env \<Rightarrow> string \<Rightarrow> string option \<Rightarrow> nat \<Rightarrow> bool \<Rightarrow> 'df bf_state
     \<Rightarrow> 'df bf_state" where
  "attempt_loop L env ticker output_path attempt success st =
     (if attempt < 2 \<and> \<not> success
      then (case try_body L env ticker output_path (attempt + 1) st of
              (None, st') \<Rightarrow> attempt_loop L env ticker output_path (attempt + 1) True st'
            | (Some ex, st') \<Rightarrow>
                attempt_loop L env ticker output_path (attempt + 1) success
                  (st'\<lparr>trace := trace st' @ [LogError (attempt + 1) ex, Sleep 1]\<rparr>))
      else st)"
  by pat_completeness auto
termination
  by (relation "measure (\<lambda>(L, env, ticker, output_path, attempt, success, st). 2 - attempt)") auto

declare attempt_loop.simps [simp del]

text \<open>One pass of \<open>for date_group in grouped_dates\<close>: \<open>date_group[0]\<close> and \<open>date_group[-1]\<close>
  are read outside the \<open>try\<close>.\<close>

definition process_group ::
  "'df lib \<Rightarrow> bf_env \<Rightarrow> string \<Rightarrow> string option \<Rightarrow> int list \<Rightarrow> 'df bf_state
     \<Rightarrow> exn + 'df bf_state" where
  "process_group L env ticker output_path date_group st =
     (case date_group of
        [] \<Rightarrow> Inl IndexError
      | d0 # _ \<Rightarrow>
          (let from_date_str = strftime_iso L d0;
               to_date_str = strftime_iso L (last date_group);
               st1 = st\<lparr>trace := trace st @ [Fetching ticker from_date_str to_date_str]\<rparr>
           in Inr (attempt_loop L env ticker output_path 0 False st1)))"

fun process_groups ::
  "'df lib \<Rightarrow> bf_env \<Rightarrow> string \<Rightarrow> string option \<Rightarrow> int list list \<Rightarrow> 'df bf_state
     \<Rightarrow> exn + 'df bf_state" where
  "process_groups L env ticker output_path [] st = Inr st"
| "process_groups L env ticker output_path (g # gs) st =
     (case process_group L env ticker output_path g st of
        Inl ex \<Rightarrow> Inl ex
      | Inr st' \<Rightarrow> process_groups L env ticker output_path gs st')"



text \<open>The retry policy in the words of the specification: a batch is tried; on an exception
  during the try the error is logged, the pipeline sleeps 1 time unit and tries once more;
  when that try raises too, the error is logged, the pipeline sleeps 1 time unit, and the
  batch is given up. The batches of a ticker are handled one after the other, whatever
  became of the earlier ones.\<close>

definition spec_batch ::
  "'df lib \<Rightarrow> bf_env \<Rightarrow> string \<Rightarrow> string option \<Rightarrow> 'df bf_state \<Rightarrow> 'df bf_state" where
  "spec_batch L env ticker output_path st =
     (case try_body L env ticker output_path 1 st of
        (None, st1) \<Rightarrow> st1
      | (Some ex1, st1) \<Rightarrow>
          (case try_body L env ticker output_path 2
                  (st1\<lparr>trace := trace st1 @ [LogError 1 ex1, Sleep 1]\<rparr>) of
             (None, st2) \<Rightarrow> st2
           | (Some ex2, st2) \<Rightarrow> st2\<lparr>trace := trace st2 @ [LogError 2 ex2, Sleep 1]\<rparr>))"

fun spec_ticker ::
  "'df lib \<Rightarrow> bf_env \<Rightarrow> string \<Rightarrow> string option \<Rightarrow> int list list \<Rightarrow> 'df bf_state
     \<Rightarrow> 'df bf_state" where
  "spec_ticker L env ticker output_path [] st = st"
| "spec_ticker L env ticker output_path (g # gs) st =
     spec_ticker L env ticker output_path gs
       (spec_batch L env ticker output_path
          (st\<lparr>trace := trace st @
                 [Fetching ticker (strftime_iso L (hd g)) (strftime_iso L (last g))]\<rparr>))"

text \<open>The events one batch leaves after its \<open>Fetching \<dots>\<close> line: one try; or a failed try,
  the error logged, a sleep of 1, and a second try; or that and the second try failing the
  same way. A try that succeeds may warn that no data came back.\<close>

definition retry_shape :: "event list \<Rightarrow> bool" where
  "retry_shape body =
     (\<exists>ex1 ex2.
        body \<in> set [[Try 1],
                     [Try 1, NoDataWarning],
                     [Try 1, LogError 1 ex1, Sleep 1, Try 2],
                     [Try 1, LogError 1 ex1, Sleep 1, Try 2, NoDataWarning],
                     [Try 1, LogError 1 ex1, Sleep 1, Try 2, LogError 2 ex2, Sleep 1]])"

text \<open>A library for evaluating the definitions on examples. The date and path functions are
  exact on the dates of the examples. Its pandas is a test double, not a model of pandas: a
  frame is the list of records it was built from, no operation raises or changes the frame,
  and the CSV text has the line \<open>header\<close> and one line \<open>row\<close> for every record.\<close>

definition test_lib :: "json list lib" where
  "test_lib =
     \<lparr> strftime_iso = (\<lambda>d. if d = 738887 then ''2024-01-02'' else if d = 738889 then ''2024-01-04''
                          else if d = 738890 then ''2024-01-05'' else if d = 738893 then ''2024-01-08''
                          else if d = 738891 then ''2024-01-06'' else ''other''),
       strftime_compact = (\<lambda>d. if d = 738887 then ''20240102'' else if d = 738893 then ''20240108''
                          else if d = 738891 then ''20240106'' else ''other''),
       str_of_int = (\<lambda>i. if i = 5 then ''5'' else ''other''),
       lower = (\<lambda>s. s),
       path_join = (\<lambda>a b. a @ ''/'' @ b),
       TEMP_DIR = ''data/backfill_cache'',
       DataFrame = (\<lambda>data. Inr data),
       empty_frame = [],
       df_empty = (\<lambda>df. df = []),
       has_column = (\<lambda>df c. False),
       rename_column = (\<lambda>df a b. Inr df),
       to_datetime_column = (\<lambda>df c. Inr df),
       set_column = (\<lambda>df c v. Inr df),
       date_of_datetime = (\<lambda>df. Inr df),
       select_columns = (\<lambda>df cs. Inr df),
       to_csv_text = (\<lambda>df header. (if header then ''header;'' else []) @ concat (map (\<lambda>r. ''row;'') df)),
       pd_concat = (\<lambda>dfs. Inr (concat dfs)) \<rparr>"

text \<open>A world whose first two tries raise and whose later tries find nothing.\<close>

definition failing_env :: bf_env where
  "failing_env =
     \<lparr> api_key = Some ''key'',
       remove_raises = False,
       on_try = (\<lambda>n. if n < 2
                      then \<lparr> intraday = Inl ReadTimeout, historical = Inr JNull, csv_error = None \<rparr>
                      else \<lparr> intraday = Inr JNull, historical = Inr JNull, csv_error = None \<rparr>) \<rparr>"

text \<open>What a run may leave on the file system \<open>fs\<close> when its output path is \<open>path\<close>: every
  other file as it was, and at \<open>path\<close> no file, or a file made of pieces each of which is the
  CSV text of a frame in \<open>all_dfs\<close>, or a prefix of one.\<close>

definition sink_inv :: "'df lib \<Rightarrow> (string \<rightharpoonup> string) \<Rightarrow> string \<Rightarrow> 'df bf_state \<Rightarrow> bool" where
  "sink_inv L fs path st =
     ((\<forall>q. q \<noteq> path \<longrightarrow> files st q = fs q) \<and>
      (files st path = None \<or>
       (\<exists>chunks. files st path = Some (concat chunks) \<and>
          (\<forall>c \<in> set chunks. \<exists>df \<in> set (all_dfs st). \<exists>header n.
               c = take n (to_csv_text L df header)))))"


section \<open>fmpMarketData.py: requests with retries\<close>

text \<open>An HTTP response as the client reads it: the status code, and what
  \<open>response.json()\<close> gives, a decoded body or the exception it raises.\<close>

record response =
  status_code :: nat
  body :: "exn + json"

text \<open>The world around one call of \<open>_make_request\<close>: the outcome of the \<open>n\<close>-th call of
  \<open>requests.get\<close> (the API request or the connectivity probe, whichever comes \<open>n\<close>-th), the
  \<open>n\<close>-th reading of \<open>time.time()\<close> made in \<open>_wait_for_internet\<close>, the schedule of passes
  through the lock of the rate limiter during the \<open>n\<close>-th call of \<open>_check_rate_limit\<close> (the
  caller is thread 0), and the subtraction of floats.\<close>

record world =
  http :: "nat \<Rightarrow> exn + response"
  clock :: "nat \<Rightarrow> real"
  schedule :: "nat \<Rightarrow> (nat \<times> real) list"
  fsub :: "real \<Rightarrow> real \<Rightarrow> real"

text \<open>The state of the call: the instance, the numbers of \<open>requests.get\<close> calls, clock
  readings and \<open>_check_rate_limit\<close> calls made so far, and the arguments of the
  \<open>time.sleep\<close> calls so far.\<close>

record io =
  client :: FMPMarketData
  gets :: nat
  reads :: nat
  calls :: nat
  slept :: "real list"

text \<open>The \<open>while True\<close> of \<open>_wait_for_internet\<close>: the probe, and the one handler
  \<open>except requests.exceptions.ConnectionError\<close>; any other exception of the probe leaves the
  function. The loop need not end, so not returning is \<open>None\<close>.\<close>

partial_function (option) wait_loop ::
  "world \<Rightarrow> real \<Rightarrow> real \<Rightarrow> io \<Rightarrow> ((exn + bool) \<times> io) option" where
  "wait_loop W start_time max_wait_seconds st =
     (case http W (gets st) of
        Inr response \<Rightarrow> Some (Inr True, st\<lparr>gets := gets st + 1\<rparr>)
      | Inl ex \<Rightarrow>
          if is_ConnectionError ex
          then (if fsub W (clock W (reads st)) start_time \<ge> max_wait_seconds
                then Some (Inr False, st\<lparr>gets := gets st + 1, reads := reads st + 1\<rparr>)
                else wait_loop W start_time max_wait_seconds
                       (st\<lparr>gets := gets st + 1, reads := reads st + 1,
                            slept := slept st @ [INTERNET_RETRY_INTERVAL_SECONDS (client st)]\<rparr>))
          else Some (Inl ex, st\<lparr>gets := gets st + 1\<rparr>))"

text \<open>\<open>_wait_for_internet(max_wait_seconds=None)\<close>: \<open>Inr True\<close> and \<open>Inr False\<close> are the
  returned values, \<open>Inl ex\<close> an exception that escapes.\<close>

definition wait_for_internet ::
  "world \<Rightarrow> real option \<Rightarrow> io \<Rightarrow> ((exn + bool) \<times> io) option" where
  "wait_for_internet W max_wait_seconds st =
     wait_loop W (clock W (reads st))
       (case max_wait_seconds of
          None \<Rightarrow> INTERNET_MAX_WAIT_SECONDS (client st)
        | Some m \<Rightarrow> m)
       (st\<lparr>reads := reads st + 1\<rparr>)"

text \<open>The \<open>try\<close> block of one pass of the \<open>for\<close> loop of \<open>_make_request\<close>: \<open>Inl ex\<close>
  when it raises \<open>ex\<close>, \<open>Inr (Some j)\<close> when it reaches \<open>return response.json()\<close>, \<open>Inr None\<close>
  when it ends without returning (a status other than 200).\<close>

definition try_request :: "world \<Rightarrow> nat \<Rightarrow> io \<Rightarrow> ((exn + json option) \<times> io) option" where
  "try_request W attempt st =
     (case check_rate_limit (fsub W) 0 (schedule W (calls st)) (client st) of
        None \<Rightarrow> None
      | Some (Inl ex, sleeps, self') \<Rightarrow>
          Some (Inl ex, st\<lparr>client := self', calls := calls st + 1, slept := slept st @ sleeps\<rparr>)
      | Some (Inr u, sleeps, self') \<Rightarrow>
          (let st1 = st\<lparr>client := self', calls := calls st + 1, slept := slept st @ sleeps,
                         gets := gets st + 1\<rparr>
           in case http W (gets st) of
                Inl ex \<Rightarrow> Some (Inl ex, st1)
              | Inr response \<Rightarrow>
                  if status_code response = 200
                  then (case body response of
                          Inl ex \<Rightarrow> Some (Inl ex, st1)
                        | Inr j \<Rightarrow> Some (Inr (Some j), st1))
                  else if status_code response = 429
                  then Some (Inr None, st1\<lparr>slept := slept st1 @ [10 * real attempt]\<rparr>)
                  else Some (Inr None, st1)))"

text \<open>One pass of the \<open>for\<close> loop with its \<open>except\<close> clauses, tried in the order
  \<open>Timeout\<close>, \<open>ConnectionError\<close>, \<open>RequestException\<close>: the function returns a value, or an
  exception escapes (one that no clause matches, or one raised inside a handler), or the loop
  goes on.\<close>

datatype step = Return json | Escape exn | Next

definition one_attempt :: "world \<Rightarrow> nat \<Rightarrow> io \<Rightarrow> (step \<times> io) option" where
  "one_attempt W attempt st =
     (case try_request W attempt st of
        None \<Rightarrow> None
      | Some (Inr (Some j), st') \<Rightarrow> Some (Return j, st')
      | Some (Inr None, st') \<Rightarrow> Some (Next, st')
      | Some (Inl ex, st') \<Rightarrow>
          if is_Timeout ex
          then Some (Next, st'\<lparr>slept := slept st' @ [5 * real attempt]\<rparr>)
          else if is_ConnectionError ex
          then (case wait_for_internet W None st' of
                  None \<Rightarrow> None
                | Some (Inl ex', st'') \<Rightarrow> Some (Escape ex', st'')
                | Some (Inr reconnected, st'') \<Rightarrow> Some (Next, st''))
          else if is_RequestException ex
          then Some (Next, st'\<lparr>slept := slept st' @ [5 * real attempt]\<rparr>)
          else Some (Escape ex, st'))"

text \<open>\<open>for attempt in range(1, self.MAX_RETRIES + 1)\<close>, then \<open>return None\<close>.\<close>

function attempts :: "world \<Rightarrow> nat \<Rightarrow> nat \<Rightarrow> io \<Rightarrow> ((exn + json) \<times> io) option" where
  "attempts W stop attempt st =
     (if attempt > stop then Some (Inr JNull, st)
      else (case one_attempt W attempt st of
              None \<Rightarrow> None
            | Some (Return j, st') \<Rightarrow> Some (Inr j, st')
            | Some (Escape ex, st') \<Rightarrow> Some (Inl ex, st')
            | Some (Next, st') \<Rightarrow> attempts W stop (attempt + 1) st'))"
  by pat_completeness auto
termination
  by (relation "measure (\<lambda>(W, stop, attempt, st). stop + 1 - attempt)") auto

declare attempts.simps [simp del]

definition make_request :: "world \<Rightarrow> io \<Rightarrow> ((exn + json) \<times> io) option" where
  "make_request W st = attempts W (MAX_RETRIES (client st)) 1 st"

text \<open>The instance \<open>__init__\<close> builds.\<close>

definition new_client :: FMPMarketData where
  "new_client =
     \<lparr> request_timestamps = [],
       MAX_REQUESTS_PER_MIN = 3000,
       LOCK_WINDOW_SECONDS = 60,
       MAX_RETRIES = 6,
       TIMEOUT_SECONDS = 10,
       INTERNET_RETRY_INTERVAL_SECONDS = 10,
       INTERNET_MAX_WAIT_SECONDS = 120 \<rparr>"

text \<open>A world in which the API request fails to connect and the connectivity probe then
  times out while reading; the limiter is free.\<close>

definition probe_timeout_world :: world where
  "probe_timeout_world =
     \<lparr> http = (\<lambda>n. if n = 0 then Inl ConnectionError else Inl ReadTimeout),
       clock = (\<lambda>n. 100),
       schedule = (\<lambda>n. [(0, 100)]),
       fsub = (-) \<rparr>"

section \<open>fmpMarketData.py and crypto_tickers.py: the side files\<close>

text \<open>The places at which writing a side file can fail with an \<open>OSError\<close>: creating the
  directory, opening the file, \<open>json.dump\<close> and \<open>flush\<close> (after so many characters have
  reached the file), \<open>os.fsync\<close>, and \<open>os.replace\<close>.\<close>

datatype stage = Mkdir | Create | Dump nat | Flush nat | Fsync | Replace

text \<open>What the functions that write side files take from outside: the text
  \<open>json.dump(\<dots>, indent=2)\<close> produces for a list of strings, the name
  \<open>tempfile.NamedTemporaryFile\<close> picks for the temporary sibling of a target, the place, if
  any, at which the run fails, whether \<open>unlink\<close> raises, and whether \<open>s.strip()\<close> is
  non-empty.\<close>

record disk =
  json_text :: "string list \<Rightarrow> string"
  temp_name :: "string \<Rightarrow> string"
  fail_at :: "stage option"
  unlink_raises :: bool
  nonblank :: "string \<Rightarrow> bool"

text \<open>\<open>_write_json_atomic\<close>: the returned value and the file system it leaves.
  \<open>temp_path\<close> is assigned as the last statement of the \<open>with\<close> block, after \<open>json.dump\<close>,
  \<open>flush\<close> and \<open>os.fsync\<close>; the handler unlinks the temporary file only when \<open>temp_path\<close>
  is set, and ignores an \<open>OSError\<close> of \<open>unlink\<close>; the file was opened with
  \<open>delete=False\<close>, so closing it leaves it in place.\<close>

definition write_json_atomic ::
  "disk \<Rightarrow> string \<Rightarrow> string list \<Rightarrow> (string \<rightharpoonup> string) \<Rightarrow> bool \<times> (string \<rightharpoonup> string)" where
  "write_json_atomic W target_path tickers fs =
     (let temp = temp_name W target_path;
          content = json_text W tickers
      in case fail_at W of
           Some Mkdir \<Rightarrow> (False, fs)
         | Some Create \<Rightarrow> (False, fs)
         | Some (Dump n) \<Rightarrow> (False, fs(temp \<mapsto> take n content))
         | Some (Flush n) \<Rightarrow> (False, fs(temp \<mapsto> take n content))
         | Some Fsync \<Rightarrow> (False, fs(temp \<mapsto> content))
         | Some Replace \<Rightarrow>
             (False, if unlink_raises W then fs(temp \<mapsto> content) else fs(temp := None))
         | None \<Rightarrow> (True, fs(temp := None, target_path \<mapsto> content)))"

text \<open>The side files, as paths below the directory \<open>update\<close>.\<close>

definition CRYPTO_TICKERS_PATH :: string where
  "CRYPTO_TICKERS_PATH = ''extra_tickers/crypto_tickers.json''"

definition SP500_TICKERS_PATH :: string where
  "SP500_TICKERS_PATH = ''extra_tickers/sp500_tickers.json''"

text \<open>\<open>save_crypto_details\<close>: the symbols that are non-blank strings, without repetitions
  and in order of first occurrence, written with \<open>open(CRYPTO_TICKERS_PATH, "w")\<close> and
  \<open>json.dump\<close>. Opening truncates the file; no exception is caught. A stage the function does
  not have does not fail.\<close>

fun symbol_of :: "disk \<Rightarrow> json \<Rightarrow> string option" where
  "symbol_of W (JDict kvs) =
     (case map_of kvs ''symbol'' of
        Some (JStr symbol) \<Rightarrow> if nonblank W symbol then Some symbol else None
      | _ \<Rightarrow> None)"
| "symbol_of W _ = None"

fun dedupe :: "string list \<Rightarrow> string list \<Rightarrow> string list" where
  "dedupe seen [] = []"
| "dedupe seen (symbol # rest) =
     (if symbol \<in> set seen then dedupe seen rest else symbol # dedupe (symbol # seen) rest)"

definition save_crypto_details ::
  "disk \<Rightarrow> json list \<Rightarrow> (string \<rightharpoonup> string) \<Rightarrow> exn option \<times> (string \<rightharpoonup> string)" where
  "save_crypto_details W crypto_tickers fs =
     (let symbols = List.map_filter (symbol_of W) crypto_tickers;
          deduped_symbols = dedupe [] symbols;
          content = json_text W deduped_symbols
      in case fail_at W of
           Some Mkdir \<Rightarrow> (Some OSError, fs)
         | Some Create \<Rightarrow> (Some OSError, fs)
         | Some (Dump n) \<Rightarrow> (Some OSError, fs(CRYPTO_TICKERS_PATH \<mapsto> take n content))
         | Some (Flush n) \<Rightarrow> (Some OSError, fs(CRYPTO_TICKERS_PATH \<mapsto> take n content))
         | _ \<Rightarrow> (None, fs(CRYPTO_TICKERS_PATH \<mapsto> content)))"

text \<open>A disk for evaluation: a compact rendering of the list, the temporary name made
  from the target, and the given failure.\<close>

definition test_disk :: "stage option \<Rightarrow> disk" where
  "test_disk failure =
     \<lparr> json_text = (\<lambda>xs. ''['' @ concat (map (\<lambda>s. s @ '','') xs) @ '']''),
       temp_name = (\<lambda>target. target @ ''.tmp''),
       fail_at = failure,
       unlink_raises = False,
       nonblank = (\<lambda>s. s \<noteq> []) \<rparr>"

(*DEFS_END*)

section \<open>The rate limiter: admission\<close>




lemma run_passes_length [simp]: "length (run_passes sub sched s) = length sched"
  by (induction sched arbitrary: s) (auto split: prod.splits)

























section \<open>The batch planner\<close>

lemma concat_chunks_take:
  "concat (map (\<lambda>i. take b (drop i xs)) (map (\<lambda>k. k * b) [0..<n])) = take (n * b) xs"
proof (induction n)
  case 0
  then show ?case by simp
next
  case (Suc n)
  have "take (Suc n * b) xs = take (n * b + b) xs"
    by (simp add: add.commute)
  also have "\<dots> = take (n * b) xs @ take b (drop (n * b) xs)"
    by (rule take_add)
  finally show ?case using Suc.IH by simp
qed

lemma concat_group_dates: "concat (group_dates xs) = xs"
proof -
  let ?n = "(length xs + 3 - 1) div 3"
  have le: "length xs \<le> ?n * 3"
    by presburger
  have "concat (group_dates xs) = take (?n * 3) xs"
    unfolding group_dates_def range_step_def BATCH_DAYS_def
    by (rule concat_chunks_take)
  then show ?thesis using le by simp
qed

lemma group_dates_chunk:
  assumes "c \<in> set (group_dates xs)"
  shows "length c \<le> BATCH_DAYS" and "c \<noteq> []"
proof -
  from assms obtain k where k: "k < (length xs + 3 - 1) div 3"
    and c: "c = take 3 (drop (k * 3) xs)"
    by (auto simp: group_dates_def range_step_def BATCH_DAYS_def)
  show "length c \<le> BATCH_DAYS"
    by (simp add: c BATCH_DAYS_def)
  from k have "k * 3 < length xs" by presburger
  then show "c \<noteq> []" by (simp add: c)
qed

lemma bdate_range_sorted: "sorted (bdate_range s e) \<and> distinct (bdate_range s e)"
  by (simp add: bdate_range_def sorted_wrt_filter)

text \<open>
  C4. For every \<open>start_date \<le> end_date\<close> the chunks handed to the fetch loop, concatenated,
  are exactly the business days (Monday to Friday) of the closed range in strictly
  ascending order, so no day is missed and none occurs twice; every chunk is non-empty and
  holds at most \<open>BATCH_DAYS = 3\<close> days.
\<close>

theorem batch_planner_chunks:
  assumes "start_date \<le> end_date"
  shows "set (concat (planned_chunks start_date end_date))
           = {d. start_date \<le> d \<and> d \<le> end_date \<and> weekday d < 5}
       \<and> sorted_wrt (<) (concat (planned_chunks start_date end_date))
       \<and> concat (planned_chunks start_date end_date) = bdate_range start_date end_date
       \<and> (\<forall>c \<in> set (planned_chunks start_date end_date). c \<noteq> [] \<and> length c \<le> 3)
       \<and> BATCH_DAYS = 3"
proof -
  let ?all = "bdate_range start_date end_date"
  have chunks: "planned_chunks start_date end_date = (if ?all = [] then [] else group_dates ?all)"
    by (simp add: planned_chunks_def plan_batches_def Let_def)
  have cc: "concat (planned_chunks start_date end_date) = ?all"
    by (simp add: chunks concat_group_dates)
  have s: "set ?all = {d. start_date \<le> d \<and> d \<le> end_date \<and> weekday d < 5}"
    by (auto simp: bdate_range_def)
  have asc: "sorted_wrt (<) ?all"
    by (simp add: bdate_range_def sorted_wrt_filter)
  have each: "\<forall>c \<in> set (planned_chunks start_date end_date). c \<noteq> [] \<and> length c \<le> 3"
  proof
    fix c assume "c \<in> set (planned_chunks start_date end_date)"
    then have "c \<in> set (group_dates ?all)"
      by (simp add: chunks split: if_splits)
    then show "c \<noteq> [] \<and> length c \<le> 3"
      using group_dates_chunk [of c ?all] by (simp add: BATCH_DAYS_def)
  qed
  show ?thesis using cc s asc each by (simp add: BATCH_DAYS_def)
qed

theorem batch_planner_chunks_witness:
  "date_ordinal 2024 1 2 \<le> date_ordinal 2024 1 8
   \<and> weekday (date_ordinal 2024 1 2) = 1
   \<and> planned_chunks (date_ordinal 2024 1 2) (date_ordinal 2024 1 8)
       = [[date_ordinal 2024 1 2, date_ordinal 2024 1 3, date_ordinal 2024 1 4],
          [date_ordinal 2024 1 5, date_ordinal 2024 1 8]]
   \<and> concat (planned_chunks (date_ordinal 2024 1 2) (date_ordinal 2024 1 8))
       = bdate_range (date_ordinal 2024 1 2) (date_ordinal 2024 1 8)"
proof -
  have le: "date_ordinal 2024 1 2 \<le> date_ordinal 2024 1 8"
    by code_simp
  have wd: "weekday (date_ordinal 2024 1 2) = 1"
    by code_simp
  have ex: "planned_chunks (date_ordinal 2024 1 2) (date_ordinal 2024 1 8)
       = [[date_ordinal 2024 1 2, date_ordinal 2024 1 3, date_ordinal 2024 1 4],
          [date_ordinal 2024 1 5, date_ordinal 2024 1 8]]"
    by code_simp
  from batch_planner_chunks [OF le] le wd ex show ?thesis by blast
qed

section \<open>The fetch loop: two tries per batch\<close>

lemma to_csv_keeps [simp]:
  "trace (to_csv L p df stop st) = trace st" "tries (to_csv L p df stop st) = tries st"
  "all_dfs (to_csv L p df stop st) = all_dfs st"
  by (simp_all add: to_csv_def Let_def)

lemma write_chunk_cases:
  assumes "write_chunk L w out df st = (r, st')"
  shows "st' = st \<or> (\<exists>p stop. out = Some p \<and> st' = to_csv L p df stop st)"
proof (cases out)
  case None
  with assms show ?thesis by (simp add: write_chunk_def)
next
  case (Some p)
  show ?thesis
  proof (cases "p = []")
    case True
    with assms Some show ?thesis by (simp add: write_chunk_def)
  next
    case False
    show ?thesis
    proof (cases "csv_error w")
      case None
      with assms Some False have "st' = to_csv L p df None st" by (simp add: write_chunk_def)
      with Some show ?thesis by blast
    next
      case err: (Some e)
      obtain ex c where e: "e = (ex, c)" by (cases e)
      show ?thesis
      proof (cases c)
        case None
        with assms Some False err e show ?thesis by (simp add: write_chunk_def)
      next
        case n: (Some n)
        with assms Some False err e
        have "st' = to_csv L p df (Some n) st" by (simp add: write_chunk_def)
        with Some show ?thesis by blast
      qed
    qed
  qed
qed

lemma write_chunk_effect:
  assumes "write_chunk L w out df st = (r, st')"
  shows "tries st' = tries st" and "trace st' = trace st" and "all_dfs st' = all_dfs st"
  using write_chunk_cases [OF assms] by auto

lemma store_chunk_cases:
  assumes "store_chunk L w tk out data_chunk st = (r, st')"
  shows "st' = st
       \<or> (r = None \<and> st' = st\<lparr>trace := trace st @ [NoDataWarning]\<rparr>)
       \<or> (\<exists>df. write_chunk L w out df (st\<lparr>all_dfs := all_dfs st @ [df]\<rparr>) = (r, st'))"
proof (cases "\<exists>xs. data_chunk = JList xs \<and> xs \<noteq> []")
  case False
  then have "store_chunk L w tk out data_chunk st = (None, st)"
    by (cases data_chunk) (simp_all add: store_chunk_def)
  with assms show ?thesis by simp
next
  case True
  then obtain xs where xs: "data_chunk = JList xs" "xs \<noteq> []" by blast
  show ?thesis
  proof (cases "DataFrame L xs")
    case (Inl ex)
    with assms xs show ?thesis by (simp add: store_chunk_def)
  next
    case dfr: (Inr df_chunk)
    show ?thesis
    proof (cases "df_empty L df_chunk")
      case True
      with assms xs dfr show ?thesis by (simp add: store_chunk_def)
    next
      case ne: False
      show ?thesis
      proof (cases "prepare_data L df_chunk tk")
        case (Inl ex)
        with assms xs dfr ne show ?thesis by (simp add: store_chunk_def)
      next
        case (Inr df)
        with assms xs dfr ne
        have "write_chunk L w out df (st\<lparr>all_dfs := all_dfs st @ [df]\<rparr>) = (r, st')"
          by (simp add: store_chunk_def)
        then show ?thesis by blast
      qed
    qed
  qed
qed

lemma store_chunk_effect:
  assumes "store_chunk L w tk out data_chunk st = (r, st')"
  shows "tries st' = tries st"
    and "trace st' = trace st \<or> (r = None \<and> trace st' = trace st @ [NoDataWarning])"
proof -
  from store_chunk_cases [OF assms]
  consider (same) "st' = st" | (warn) "r = None" "st' = st\<lparr>trace := trace st @ [NoDataWarning]\<rparr>"
    | (kept) df where "write_chunk L w out df (st\<lparr>all_dfs := all_dfs st @ [df]\<rparr>) = (r, st')"
    by blast
  then have "tries st' = tries st
      \<and> (trace st' = trace st \<or> (r = None \<and> trace st' = trace st @ [NoDataWarning]))"
  proof cases
    case same
    then show ?thesis by simp
  next
    case warn
    then show ?thesis by simp
  next
    case (kept df)
    from write_chunk_effect [OF kept] show ?thesis by simp
  qed
  then show "tries st' = tries st"
    and "trace st' = trace st \<or> (r = None \<and> trace st' = trace st @ [NoDataWarning])"
    by simp_all
qed

lemma try_body_cases:
  assumes "try_body L env tk out a st = (r, st')"
  shows "st' = st\<lparr>tries := tries st + 1, trace := trace st @ [Try a]\<rparr>
       \<or> (\<exists>data_chunk. store_chunk L (on_try env (tries st)) tk out data_chunk
              (st\<lparr>tries := tries st + 1, trace := trace st @ [Try a]\<rparr>) = (r, st'))"
proof (cases "fetch_chunk (on_try env (tries st))")
  case (Inl ex)
  with assms show ?thesis by (simp add: try_body_def Let_def)
next
  case (Inr data_chunk)
  with assms
  have "store_chunk L (on_try env (tries st)) tk out data_chunk
              (st\<lparr>tries := tries st + 1, trace := trace st @ [Try a]\<rparr>) = (r, st')"
    by (simp add: try_body_def Let_def)
  then show ?thesis by blast
qed

lemma try_body_effect:
  assumes "try_body L env tk out a st = (r, st')"
  shows "tries st' = Suc (tries st)"
    and "trace st' = trace st @ [Try a] \<or> (r = None \<and> trace st' = trace st @ [Try a, NoDataWarning])"
proof -
  let ?st0 = "st\<lparr>tries := tries st + 1, trace := trace st @ [Try a]\<rparr>"
  from try_body_cases [OF assms]
  consider (raised) "st' = ?st0"
    | (fetched) data_chunk where "store_chunk L (on_try env (tries st)) tk out data_chunk ?st0 = (r, st')"
    by blast
  then have "tries st' = Suc (tries st)
      \<and> (trace st' = trace st @ [Try a] \<or> (r = None \<and> trace st' = trace st @ [Try a, NoDataWarning]))"
  proof cases
    case raised
    then show ?thesis by simp
  next
    case (fetched data_chunk)
    from store_chunk_effect [OF fetched] show ?thesis by auto
  qed
  then show "tries st' = Suc (tries st)"
    and "trace st' = trace st @ [Try a] \<or> (r = None \<and> trace st' = trace st @ [Try a, NoDataWarning])"
    by simp_all
qed

lemma try_body_fetch_raises:
  "intraday (on_try env (tries st)) = Inl ex \<Longrightarrow>
     try_body L env tk out a st = (Some ex, st\<lparr>tries := tries st + 1, trace := trace st @ [Try a]\<rparr>)"
  "intraday (on_try env (tries st)) = Inr JNull \<Longrightarrow> historical (on_try env (tries st)) = Inl ex \<Longrightarrow>
     try_body L env tk out a st = (Some ex, st\<lparr>tries := tries st + 1, trace := trace st @ [Try a]\<rparr>)"
  by (simp_all add: try_body_def fetch_chunk_def Let_def)

lemma attempt_loop_stop:
  "\<not> (attempt < 2 \<and> \<not> success) \<Longrightarrow> attempt_loop L env tk out attempt success st = st"
  by (subst attempt_loop.simps) auto

lemma attempt_loop_step:
  "attempt < 2 \<Longrightarrow>
   attempt_loop L env tk out attempt False st =
     (case try_body L env tk out (attempt + 1) st of
        (None, st') \<Rightarrow> st'
      | (Some ex, st') \<Rightarrow>
          attempt_loop L env tk out (attempt + 1) False
            (st'\<lparr>trace := trace st' @ [LogError (attempt + 1) ex, Sleep 1]\<rparr>))"
  by (subst attempt_loop.simps) (simp add: attempt_loop_stop split: prod.splits option.splits)

lemma attempt_loop_spec:
  "attempt_loop L env tk out 0 False st = spec_batch L env tk out st"
proof -
  obtain r1 s1 where t1: "try_body L env tk out 1 st = (r1, s1)"
    by (cases "try_body L env tk out 1 st")
  show ?thesis
  proof (cases r1)
    case None
    then show ?thesis using t1 by (simp add: attempt_loop_step spec_batch_def)
  next
    case (Some ex1)
    let ?s1 = "s1\<lparr>trace := trace s1 @ [LogError 1 ex1, Sleep 1]\<rparr>"
    obtain r2 s2 where t2: "try_body L env tk out 2 ?s1 = (r2, s2)"
      by (cases "try_body L env tk out 2 ?s1")
    have mid: "attempt_loop L env tk out 0 False st = attempt_loop L env tk out 1 False ?s1"
      using t1 Some by (simp add: attempt_loop_step)
    have "attempt_loop L env tk out 1 False ?s1 =
            (case r2 of None \<Rightarrow> s2 | Some ex2 \<Rightarrow> s2\<lparr>trace := trace s2 @ [LogError 2 ex2, Sleep 1]\<rparr>)"
      using t2 by (cases r2) (simp_all add: attempt_loop_step attempt_loop_stop numeral_2_eq_2)
    then show ?thesis
      using mid t1 t2 Some by (simp add: spec_batch_def split: option.splits)
  qed
qed

lemma spec_batch_shape:
  "\<exists>body. trace (spec_batch L env tk out st) = trace st @ body \<and> retry_shape body
      \<and> tries st < tries (spec_batch L env tk out st)
      \<and> tries (spec_batch L env tk out st) \<le> tries st + 2"
proof -
  obtain r1 s1 where t1: "try_body L env tk out 1 st = (r1, s1)"
    by (cases "try_body L env tk out 1 st")
  note e1 = try_body_effect [OF t1]
  show ?thesis
  proof (cases r1)
    case None
    have fin: "spec_batch L env tk out st = s1"
      using t1 None by (simp add: spec_batch_def)
    from e1 show ?thesis
      unfolding fin retry_shape_def by auto
  next
    case (Some ex1)
    let ?s1 = "s1\<lparr>trace := trace s1 @ [LogError 1 ex1, Sleep 1]\<rparr>"
    obtain r2 s2 where t2: "try_body L env tk out 2 ?s1 = (r2, s2)"
      by (cases "try_body L env tk out 2 ?s1")
    note e2 = try_body_effect [OF t2]
    from e1 Some have l1: "trace s1 = trace st @ [Try 1]" by auto
    show ?thesis
    proof (cases r2)
      case None
      have fin: "spec_batch L env tk out st = s2"
        using t1 t2 Some None by (simp add: spec_batch_def)
      from e1 e2 l1 show ?thesis
        unfolding fin retry_shape_def by auto
    next
      case (Some ex2)
      have fin: "spec_batch L env tk out st = s2\<lparr>trace := trace s2 @ [LogError 2 ex2, Sleep 1]\<rparr>"
        using t1 t2 \<open>r1 = Some ex1\<close> Some by (simp add: spec_batch_def)
      from e1 e2 l1 Some show ?thesis
        unfolding fin retry_shape_def by auto
    qed
  qed
qed

lemma process_group_spec:
  assumes "g \<noteq> []"
  shows "process_group L env tk out g st =
           Inr (spec_batch L env tk out
                  (st\<lparr>trace := trace st @ [Fetching tk (strftime_iso L (hd g)) (strftime_iso L (last g))]\<rparr>))"
  using assms by (cases g) (simp_all add: process_group_def Let_def attempt_loop_spec)

lemma process_groups_spec:
  assumes "\<forall>g \<in> set groups. g \<noteq> []"
  shows "process_groups L env tk out groups st = Inr (spec_ticker L env tk out groups st)"
  using assms
  by (induction groups arbitrary: st) (simp_all add: process_group_spec)

lemma spec_ticker_shape:
  "\<exists>segs. trace (spec_ticker L env tk out groups st) = trace st @ concat segs
      \<and> list_all2
           (\<lambda>g seg. \<exists>body. seg = Fetching tk (strftime_iso L (hd g)) (strftime_iso L (last g)) # body
                       \<and> retry_shape body)
           groups segs
      \<and> tries st + length groups \<le> tries (spec_ticker L env tk out groups st)
      \<and> tries (spec_ticker L env tk out groups st) \<le> tries st + 2 * length groups"
proof (induction groups arbitrary: st)
  case Nil
  show ?case by simp
next
  case (Cons g gs)
  let ?f = "Fetching tk (strftime_iso L (hd g)) (strftime_iso L (last g))"
  let ?st1 = "st\<lparr>trace := trace st @ [?f]\<rparr>"
  let ?s1 = "spec_batch L env tk out ?st1"
  from spec_batch_shape [of L env tk out ?st1]
  obtain body where t1: "trace ?s1 = trace ?st1 @ body" and sh: "retry_shape body"
    and n1: "tries ?st1 < tries ?s1" "tries ?s1 \<le> tries ?st1 + 2"
    by blast
  from Cons.IH [of ?s1]
  obtain segs where t2: "trace (spec_ticker L env tk out gs ?s1) = trace ?s1 @ concat segs"
    and la: "list_all2
               (\<lambda>g seg. \<exists>body. seg = Fetching tk (strftime_iso L (hd g)) (strftime_iso L (last g)) # body
                           \<and> retry_shape body) gs segs"
    and n2: "tries ?s1 + length gs \<le> tries (spec_ticker L env tk out gs ?s1)"
            "tries (spec_ticker L env tk out gs ?s1) \<le> tries ?s1 + 2 * length gs"
    by blast
  have "trace (spec_ticker L env tk out (g # gs) st) = trace st @ concat ((?f # body) # segs)"
    by (simp add: t1 t2)
  moreover have "list_all2
               (\<lambda>g seg. \<exists>body. seg = Fetching tk (strftime_iso L (hd g)) (strftime_iso L (last g)) # body
                           \<and> retry_shape body) (g # gs) ((?f # body) # segs)"
    using la sh by simp
  moreover have "tries st + length (g # gs) \<le> tries (spec_ticker L env tk out (g # gs) st)"
    "tries (spec_ticker L env tk out (g # gs) st) \<le> tries st + 2 * length (g # gs)"
    using n1 n2 by simp_all
  ultimately show ?case by blast
qed

text \<open>
  C5. For every ticker, every sequence of non-empty batches and every behaviour of the
  provider and of pandas, the per-ticker loop of \<open>backfill_data\<close> runs to its end (no batch
  failure aborts it) and does what the retry policy of the specification says: each batch
  is tried; an exception during the try is logged, followed by a sleep of 1 and one more
  try; when that try raises too, its error is logged, followed by a sleep of 1, and the
  next batch starts. In the event trace every batch has its own segment: the \<open>Fetching\<close>
  line, then one try, or a failed try, the logged error, a sleep of 1 and one retry, or two
  failed tries each followed by the logged error and the sleep. So every batch gets at least
  one and at most two tries. An exception raised by the intraday fetch, or by the
  historical fetch made when the intraday fetch returns \<open>None\<close>, is the exception of the
  try and leaves the run otherwise as it was.
\<close>

theorem fetch_pipeline_retry:
  assumes "\<forall>g \<in> set groups. g \<noteq> []"
  shows "\<exists>st' segs. process_groups L env ticker out groups st = Inr st'
           \<and> st' = spec_ticker L env ticker out groups st
           \<and> trace st' = trace st @ concat segs
           \<and> list_all2
               (\<lambda>g seg. \<exists>body. seg = Fetching ticker (strftime_iso L (hd g)) (strftime_iso L (last g)) # body
                           \<and> retry_shape body)
               groups segs
           \<and> tries st + length groups \<le> tries st'
           \<and> tries st' \<le> tries st + 2 * length groups
           \<and> (\<forall>a s ex. intraday (on_try env (tries s)) = Inl ex \<longrightarrow>
                 try_body L env ticker out a s
                   = (Some ex, s\<lparr>tries := tries s + 1, trace := trace s @ [Try a]\<rparr>))
           \<and> (\<forall>a s ex. intraday (on_try env (tries s)) = Inr JNull
                        \<and> historical (on_try env (tries s)) = Inl ex \<longrightarrow>
                 try_body L env ticker out a s
                   = (Some ex, s\<lparr>tries := tries s + 1, trace := trace s @ [Try a]\<rparr>))"
proof -
  have run: "process_groups L env ticker out groups st = Inr (spec_ticker L env ticker out groups st)"
    by (rule process_groups_spec [OF assms])
  from spec_ticker_shape [of L env ticker out groups st]
  obtain segs where sh: "trace (spec_ticker L env ticker out groups st) = trace st @ concat segs"
    "list_all2
       (\<lambda>g seg. \<exists>body. seg = Fetching ticker (strftime_iso L (hd g)) (strftime_iso L (last g)) # body
                   \<and> retry_shape body)
       groups segs"
    "tries st + length groups \<le> tries (spec_ticker L env ticker out groups st)"
    "tries (spec_ticker L env ticker out groups st) \<le> tries st + 2 * length groups"
    by blast
  have a: "\<forall>a s ex. intraday (on_try env (tries s)) = Inl ex \<longrightarrow>
                 try_body L env ticker out a s
                   = (Some ex, s\<lparr>tries := tries s + 1, trace := trace s @ [Try a]\<rparr>)"
    by (simp add: try_body_fetch_raises(1))
  have b: "\<forall>a s ex. intraday (on_try env (tries s)) = Inr JNull
                        \<and> historical (on_try env (tries s)) = Inl ex \<longrightarrow>
                 try_body L env ticker out a s
                   = (Some ex, s\<lparr>tries := tries s + 1, trace := trace s @ [Try a]\<rparr>)"
    by (simp add: try_body_fetch_raises(2))
  from run sh a b show ?thesis by blast
qed

theorem fetch_pipeline_retry_witness:
  "process_groups test_lib failing_env ''AAPL'' None
        [[738887, 738888, 738889], [738890, 738893]]
        \<lparr> files = Map.empty, all_dfs = [], trace = [], tries = 0 \<rparr>
      = Inr \<lparr> files = Map.empty, all_dfs = [],
              trace = [Fetching ''AAPL'' ''2024-01-02'' ''2024-01-04'',
                       Try 1, LogError 1 ReadTimeout, Sleep 1,
                       Try 2, LogError 2 ReadTimeout, Sleep 1,
                       Fetching ''AAPL'' ''2024-01-05'' ''2024-01-08'', Try 1],
              tries = 3 \<rparr>"
proof -
  have h: "\<forall>g \<in> set [[738887, 738888, 738889], [738890, 738893 :: int]]. g \<noteq> []"
    by simp
  from fetch_pipeline_retry [OF h, of test_lib failing_env "''AAPL''" None
         "\<lparr> files = Map.empty, all_dfs = [], trace = [], tries = 0 \<rparr>"]
  show ?thesis
    by (simp add: spec_batch_def try_body_def fetch_chunk_def store_chunk_def test_lib_def
          failing_env_def Let_def)
qed

section \<open>The CSV sink of \<open>backfill_data\<close>\<close>

lemma sink_inv_cong:
  "files st' = files st \<Longrightarrow> all_dfs st' = all_dfs st \<Longrightarrow> sink_inv L fs path st' = sink_inv L fs path st"
  by (simp add: sink_inv_def)



lemma sink_inv_trace [simp]:
  "sink_inv L fs path (st\<lparr>trace := t\<rparr>) = sink_inv L fs path st"
  by (simp add: sink_inv_def)

lemma sink_inv_tries [simp]:
  "sink_inv L fs path (st\<lparr>tries := n\<rparr>) = sink_inv L fs path st"
  by (simp add: sink_inv_def)
















section \<open>Requests with retries\<close>

lemma new_client_init: "FMPMarketData_init (Some ''key'') = Inr new_client"
  by (simp add: FMPMarketData_init_def new_client_def)

text \<open>
  C2 fails on the code. The API request of the first attempt raises \<open>ConnectionError\<close>; the
  handler calls \<open>_wait_for_internet\<close>, whose probe raises \<open>ReadTimeout\<close>; the helper catches
  \<open>ConnectionError\<close> only, and an exception raised inside a handler of \<open>_make_request\<close> is not
  caught by the other clauses of the same \<open>try\<close>: \<open>ReadTimeout\<close> reaches the caller after one
  attempt, and the function does not return \<open>None\<close>.
\<close>

theorem make_request_probe_timeout_escapes:
  "FMPMarketData_init (Some ''key'') = Inr new_client
   \<and> make_request probe_timeout_world
        \<lparr> client = new_client, gets = 0, reads = 0, calls = 0, slept = [] \<rparr>
      = Some (Inl ReadTimeout,
              \<lparr> client = new_client\<lparr>request_timestamps := [100]\<rparr>,
                gets = 2, reads = 1, calls = 1, slept = [] \<rparr>)"
proof -
  have "make_request probe_timeout_world
        \<lparr> client = new_client, gets = 0, reads = 0, calls = 0, slept = [] \<rparr>
      = Some (Inl ReadTimeout,
              \<lparr> client = new_client\<lparr>request_timestamps := [100]\<rparr>,
                gets = 2, reads = 1, calls = 1, slept = [] \<rparr>)"
    unfolding make_request_def
    by (subst attempts.simps)
      (simp add: one_attempt_def try_request_def wait_for_internet_def wait_loop.simps
         rate_limit_locked_def probe_timeout_world_def new_client_def Let_def)
  with new_client_init show ?thesis by simp
qed

section \<open>The side files\<close>

text \<open>
  C9 fails on the code. When \<open>os.fsync\<close> raises, \<open>_write_json_atomic\<close> returns \<open>False\<close> and
  leaves the target as it was, but the temporary file it created stays on the disk:
  \<open>temp_path\<close> is still \<open>None\<close> in the handler. When \<open>os.replace\<close> raises, the temporary file
  is removed.
\<close>

theorem write_json_atomic_leaves_temp:
  "write_json_atomic (test_disk (Some Fsync)) SP500_TICKERS_PATH [''AAPL'', ''MSFT'']
      [SP500_TICKERS_PATH \<mapsto> ''[IBM,]'']
     = (False, [SP500_TICKERS_PATH \<mapsto> ''[IBM,]'',
                SP500_TICKERS_PATH @ ''.tmp'' \<mapsto> ''[AAPL,MSFT,]''])
   \<and> write_json_atomic (test_disk (Some Replace)) SP500_TICKERS_PATH [''AAPL'', ''MSFT'']
      [SP500_TICKERS_PATH \<mapsto> ''[IBM,]'']
     = (False, [SP500_TICKERS_PATH \<mapsto> ''[IBM,]''])"
  by (simp add: write_json_atomic_def test_disk_def SP500_TICKERS_PATH_def Let_def fun_eq_iff)

text \<open>
  C6 fails on the code. The crypto universe is persisted by \<open>save_crypto_details\<close>, which
  writes the target in place: when \<open>json.dump\<close> fails after 5 characters the target holds
  those 5 characters, the earlier list is gone, and the exception leaves the function. On
  the same failure \<open>_write_json_atomic\<close>, which the other two universe fetches use, leaves
  the target as it was.
\<close>

theorem save_crypto_details_partial_file:
  "save_crypto_details (test_disk (Some (Dump 5)))
      [JDict [(''symbol'', JStr ''BTCUSD'')], JDict [(''symbol'', JStr ''ETHUSD'')]]
      [CRYPTO_TICKERS_PATH \<mapsto> ''[XRPUSD,]'']
     = (Some OSError, [CRYPTO_TICKERS_PATH \<mapsto> ''[BTCU''])
   \<and> write_json_atomic (test_disk (Some (Dump 5))) CRYPTO_TICKERS_PATH [''BTCUSD'', ''ETHUSD'']
      [CRYPTO_TICKERS_PATH \<mapsto> ''[XRPUSD,]'']
     = (False, [CRYPTO_TICKERS_PATH \<mapsto> ''[XRPUSD,]'',
                CRYPTO_TICKERS_PATH @ ''.tmp'' \<mapsto> ''[BTCU''])"
  by (simp add: save_crypto_details_def write_json_atomic_def test_disk_def
        CRYPTO_TICKERS_PATH_def List.map_filter_def Let_def fun_eq_iff)

(*THMS_END*)

end
